theory Spec2Isabelle
  imports Complex_Main
begin

section \<open>The refrigeration cycle solver of prueba.py\<close>

text \<open>
  The solver \<^verbatim>\<open>simular_refrigerador\<close> turns an ambient temperature, an interior
  temperature (both in degrees Celsius) and a refrigerant mass flow into four cycle
  states and six scalar metrics. Python floats are modelled as real numbers, so
  arithmetic is exact. The property library (\<^verbatim>\<open>CP.PropsSI\<close>) is not part
  of the repository: it is a parameter of every definition below, a function from the
  six arguments of a call to the value it returns, \<open>None\<close> when the call raises.
\<close>

subsection \<open>Errors\<close>

text \<open>
  \<open>ValueError\<close> is what a failed property lookup raises, \<open>ZeroDivisionError\<close> what
  the float division of line 47 raises on a zero divisor, \<open>KeyError\<close> what a missing
  dictionary key raises (line 70).
\<close>

datatype error = ValueError | ZeroDivisionError | KeyError

fun seq :: "error + 'a \<Rightarrow> ('a \<Rightarrow> error + 'b) \<Rightarrow> error + 'b" where
  "seq (Inl e) f = Inl e"
| "seq (Inr v) f = f v"

subsection \<open>The property oracle\<close>

type_synonym props =
  "string \<Rightarrow> string \<Rightarrow> real \<Rightarrow> string \<Rightarrow> real \<Rightarrow> string \<Rightarrow> real option"

definition PropsSI ::
  "props \<Rightarrow> string \<Rightarrow> string \<Rightarrow> real \<Rightarrow> string \<Rightarrow> real \<Rightarrow> string \<Rightarrow> error + real" where
  "PropsSI CP out n1 v1 n2 v2 fluid =
     (case CP out n1 v1 n2 v2 fluid of None \<Rightarrow> Inl ValueError | Some v \<Rightarrow> Inr v)"

subsection \<open>Units\<close>

text \<open>
  Every quantity is kept as its magnitude in the unit the source gives it; the
  conversions the source asks of the units library are written out.
\<close>

definition degC_to_kelvin :: "real \<Rightarrow> real" where
  "degC_to_kelvin t = t + 273.15"

definition W_to_kW :: "real \<Rightarrow> real" where
  "W_to_kW x = x / 1000"

definition truediv :: "real \<Rightarrow> real \<Rightarrow> error + real" where
  "truediv a b = (if b = 0 then Inl ZeroDivisionError else Inr (a / b))"

definition refrigerante :: string where
  "refrigerante = ''R134a''"

definition Delta_T_cond :: real where
  "Delta_T_cond = 15"

subsection \<open>Results\<close>

record estado =
  e_P :: real
  e_T :: real
  e_h :: real
  e_s :: real
  e_desc :: string

record escalares =
  Trabajo_Compresor_kW :: real
  Calor_Extraido_kW :: real
  COP :: real
  Calidad_Evap :: real
  Temp_Descarga_C :: real
  Flujo_Masico_kg_s :: real

record resultados =
  scalar :: escalares
  states :: "nat \<rightharpoonup> estado"

subsection \<open>Lines 12 to 44: the four states\<close>

text \<open>The local variables of the solver once line 44 has run.\<close>

record locales =
  c_T_ambiente :: real
  c_T_interior :: real
  c_Flujo_masico :: real
  c_h1 :: real
  c_s1 :: real
  c_T_condensacion :: real
  c_P_condensacion :: real
  c_s2 :: real
  c_P2 :: real
  c_h2 :: real
  c_Trabajo_necesario :: real
  c_P3 :: real
  c_h3 :: real
  c_T3 :: real
  c_h4 :: real
  c_P4 :: real
  c_x4 :: real
  c_Q_evap :: real

definition ciclo :: "props \<Rightarrow> real \<Rightarrow> real \<Rightarrow> real \<Rightarrow> error + locales" where
  "ciclo CP T_ambiente_C T_interior_C Flujo_masico_kg_s =
    (let T_ambiente = degC_to_kelvin T_ambiente_C;
         T_interior = degC_to_kelvin T_interior_C;
         Flujo_masico = Flujo_masico_kg_s
     in
     seq (PropsSI CP ''H'' ''T'' T_interior ''Q'' 1 refrigerante) (\<lambda>h1.
     seq (PropsSI CP ''S'' ''T'' T_interior ''Q'' 1 refrigerante) (\<lambda>s1.
     let T_condensacion = T_ambiente + Delta_T_cond in
     seq (PropsSI CP ''P'' ''T'' T_condensacion ''Q'' 0 refrigerante) (\<lambda>P_condensacion.
     let s2 = s1;
         P2 = P_condensacion
     in
     seq (PropsSI CP ''H'' ''P'' P2 ''S'' s2 refrigerante) (\<lambda>h2.
     let Trabajo_necesario = Flujo_masico * (h2 - h1);
         P3 = P2
     in
     seq (PropsSI CP ''H'' ''P'' P3 ''Q'' 0 refrigerante) (\<lambda>h3.
     seq (PropsSI CP ''T'' ''P'' P3 ''Q'' 0 refrigerante) (\<lambda>T3.
     let h4 = h3 in
     seq (PropsSI CP ''P'' ''T'' T_interior ''Q'' 1 refrigerante) (\<lambda>P4.
     seq (PropsSI CP ''Q'' ''P'' P4 ''H'' h4 refrigerante) (\<lambda>x4.
     let Q_evap = Flujo_masico * (h1 - h4) in
     Inr \<lparr> c_T_ambiente = T_ambiente, c_T_interior = T_interior,
           c_Flujo_masico = Flujo_masico, c_h1 = h1, c_s1 = s1,
           c_T_condensacion = T_condensacion, c_P_condensacion = P_condensacion,
           c_s2 = s2, c_P2 = P2, c_h2 = h2,
           c_Trabajo_necesario = Trabajo_necesario,
           c_P3 = P3, c_h3 = h3, c_T3 = T3, c_h4 = h4, c_P4 = P4, c_x4 = x4,
           c_Q_evap = Q_evap \<rparr>)))))))))"

subsection \<open>Lines 47 to 72: the metrics and the dictionary returned\<close>

definition empaquetar :: "props \<Rightarrow> locales \<Rightarrow> error + resultados" where
  "empaquetar CP c =
     seq (truediv (c_Q_evap c) (c_Trabajo_necesario c)) (\<lambda>cop.
     seq (PropsSI CP ''T'' ''H'' (c_h2 c) ''P'' (c_P2 c) refrigerante) (\<lambda>T_descarga.
     seq (PropsSI CP ''S'' ''P'' (c_P3 c) ''Q'' 0 refrigerante) (\<lambda>s3.
     seq (PropsSI CP ''S'' ''P'' (c_P4 c) ''H'' (c_h4 c) refrigerante) (\<lambda>s4.
     let res = \<lparr>
           scalar = \<lparr>
             Trabajo_Compresor_kW = W_to_kW (c_Trabajo_necesario c),
             Calor_Extraido_kW = W_to_kW (c_Q_evap c),
             COP = cop,
             Calidad_Evap = c_x4 c,
             Temp_Descarga_C = T_descarga - 273.15,
             Flujo_Masico_kg_s = c_Flujo_masico c \<rparr>,
           states = [
             1 \<mapsto> \<lparr> e_P = c_P4 c, e_T = c_T_interior c, e_h = c_h1 c,
                    e_s = c_s1 c, e_desc = ''Entrada Compresor'' \<rparr>,
             2 \<mapsto> \<lparr> e_P = c_P2 c, e_T = c_T_ambiente c + Delta_T_cond, e_h = c_h2 c,
                    e_s = c_s2 c, e_desc = ''Entrada Condensador'' \<rparr>,
             3 \<mapsto> \<lparr> e_P = c_P3 c, e_T = c_T3 c, e_h = c_h3 c,
                    e_s = s3, e_desc = ''Salida Condensador'' \<rparr>,
             4 \<mapsto> \<lparr> e_P = c_P4 c, e_T = c_T_interior c, e_h = c_h4 c,
                    e_s = s4, e_desc = ''Entrada Evaporador'' \<rparr> ] \<rparr>
     in
     seq (PropsSI CP ''T'' ''H'' (c_h2 c) ''P'' (c_P2 c) refrigerante) (\<lambda>T2_real.
     case states res 2 of
       None \<Rightarrow> Inl KeyError
     | Some e2 \<Rightarrow> Inr (res \<lparr> states := (states res)(2 \<mapsto> e2 \<lparr> e_T := T2_real \<rparr>) \<rparr>))))))"

definition simular_refrigerador ::
  "props \<Rightarrow> real \<Rightarrow> real \<Rightarrow> real \<Rightarrow> error + resultados" where
  "simular_refrigerador CP T_ambiente_C T_interior_C Flujo_masico_kg_s =
     seq (ciclo CP T_ambiente_C T_interior_C Flujo_masico_kg_s) (empaquetar CP)"

subsection \<open>A sample oracle\<close>

text \<open>
  A total stand-in for the property library, linear in its first value, on which the
  solver can be evaluated: the saturation pressure is twice the temperature, the
  enthalpy after compression grows with the condensing pressure, so the compressor
  work is positive exactly when the interior is colder than the condenser.
\<close>

definition CP_lineal :: props where
  "CP_lineal out n1 v1 n2 v2 fluid =
    (if fluid \<noteq> ''R134a'' then None
     else if out = ''H'' \<and> n1 = ''T'' \<and> n2 = ''Q'' then Some (1000 + v1)
     else if out = ''H'' \<and> n1 = ''P'' \<and> n2 = ''S'' then Some (1000 + v1 / 2)
     else if out = ''H'' \<and> n1 = ''P'' \<and> n2 = ''Q'' then Some (v1 / 2 - 100)
     else if out = ''P'' \<and> n1 = ''T'' \<and> n2 = ''Q'' then Some (2 * v1)
     else if out = ''T'' \<and> n1 = ''P'' \<and> n2 = ''Q'' then Some (v1 / 2)
     else if out = ''T'' \<and> n1 = ''H'' \<and> n2 = ''P'' then Some (v1 - 980)
     else if out = ''S'' \<and> n1 = ''T'' \<and> n2 = ''Q'' then Some (4 * v1)
     else if out = ''S'' \<and> n1 = ''P'' then Some (v1 + v2)
     else if out = ''Q'' \<and> n1 = ''P'' \<and> n2 = ''H'' then Some (1 / 2)
     else None)"

section \<open>What a successful solve returns\<close>

lemma seq_Inr_iff: "seq m f = Inr r \<longleftrightarrow> (\<exists>v. m = Inr v \<and> f v = Inr r)"
  by (cases m) simp_all

lemma PropsSI_Inr_iff: "PropsSI CP out n1 v1 n2 v2 fl = Inr v \<longleftrightarrow> CP out n1 v1 n2 v2 fl = Some v"
  by (simp add: PropsSI_def split: option.splits)

lemma truediv_Inr_iff: "truediv a b = Inr q \<longleftrightarrow> b \<noteq> 0 \<and> q = a / b"
  by (auto simp add: truediv_def)

lemma ciclo_Inr_iff:
  "ciclo CP Ta Ti m = Inr c \<longleftrightarrow>
    (\<exists>h1 s1 Pc h2 h3 T3 P4 x4.
       CP ''H'' ''T'' (degC_to_kelvin Ti) ''Q'' 1 refrigerante = Some h1 \<and>
       CP ''S'' ''T'' (degC_to_kelvin Ti) ''Q'' 1 refrigerante = Some s1 \<and>
       CP ''P'' ''T'' (degC_to_kelvin Ta + Delta_T_cond) ''Q'' 0 refrigerante = Some Pc \<and>
       CP ''H'' ''P'' Pc ''S'' s1 refrigerante = Some h2 \<and>
       CP ''H'' ''P'' Pc ''Q'' 0 refrigerante = Some h3 \<and>
       CP ''T'' ''P'' Pc ''Q'' 0 refrigerante = Some T3 \<and>
       CP ''P'' ''T'' (degC_to_kelvin Ti) ''Q'' 1 refrigerante = Some P4 \<and>
       CP ''Q'' ''P'' P4 ''H'' h3 refrigerante = Some x4 \<and>
       c = \<lparr> c_T_ambiente = degC_to_kelvin Ta, c_T_interior = degC_to_kelvin Ti,
             c_Flujo_masico = m, c_h1 = h1, c_s1 = s1,
             c_T_condensacion = degC_to_kelvin Ta + Delta_T_cond, c_P_condensacion = Pc,
             c_s2 = s1, c_P2 = Pc, c_h2 = h2,
             c_Trabajo_necesario = m * (h2 - h1),
             c_P3 = Pc, c_h3 = h3, c_T3 = T3, c_h4 = h3, c_P4 = P4, c_x4 = x4,
             c_Q_evap = m * (h1 - h3) \<rparr>)"
  unfolding ciclo_def Let_def seq_Inr_iff PropsSI_Inr_iff
  by (simp only: ex_simps[symmetric] conj_assoc) (auto)

lemma empaquetar_Inr_iff:
  "empaquetar CP c = Inr r \<longleftrightarrow>
    c_Trabajo_necesario c \<noteq> 0 \<and>
    (\<exists>Td s3 s4.
       CP ''T'' ''H'' (c_h2 c) ''P'' (c_P2 c) refrigerante = Some Td \<and>
       CP ''S'' ''P'' (c_P3 c) ''Q'' 0 refrigerante = Some s3 \<and>
       CP ''S'' ''P'' (c_P4 c) ''H'' (c_h4 c) refrigerante = Some s4 \<and>
       r = \<lparr> scalar = \<lparr>
             Trabajo_Compresor_kW = W_to_kW (c_Trabajo_necesario c),
             Calor_Extraido_kW = W_to_kW (c_Q_evap c),
             COP = c_Q_evap c / c_Trabajo_necesario c,
             Calidad_Evap = c_x4 c,
             Temp_Descarga_C = Td - 273.15,
             Flujo_Masico_kg_s = c_Flujo_masico c \<rparr>,
           states = [
             1 \<mapsto> \<lparr> e_P = c_P4 c, e_T = c_T_interior c, e_h = c_h1 c,
                    e_s = c_s1 c, e_desc = ''Entrada Compresor'' \<rparr>,
             2 \<mapsto> \<lparr> e_P = c_P2 c, e_T = Td, e_h = c_h2 c,
                    e_s = c_s2 c, e_desc = ''Entrada Condensador'' \<rparr>,
             3 \<mapsto> \<lparr> e_P = c_P3 c, e_T = c_T3 c, e_h = c_h3 c,
                    e_s = s3, e_desc = ''Salida Condensador'' \<rparr>,
             4 \<mapsto> \<lparr> e_P = c_P4 c, e_T = c_T_interior c, e_h = c_h4 c,
                    e_s = s4, e_desc = ''Entrada Evaporador'' \<rparr> ] \<rparr>)"
  unfolding empaquetar_def Let_def seq_Inr_iff PropsSI_Inr_iff truediv_Inr_iff
  by (auto simp add: fun_upd_twist)


lemma simular_Inr_iff:
  "simular_refrigerador CP Ta Ti m = Inr r \<longleftrightarrow>
     (\<exists>c. ciclo CP Ta Ti m = Inr c \<and> empaquetar CP c = Inr r)"
  by (simp add: simular_refrigerador_def seq_Inr_iff)

lemma simular_Inr_D:
  assumes "simular_refrigerador CP Ta Ti m = Inr r"
  shows "\<exists>h1 s1 Pc h2 h3 T3 P4 x4 Td s3 s4.
       CP ''H'' ''T'' (degC_to_kelvin Ti) ''Q'' 1 refrigerante = Some h1 \<and>
       CP ''S'' ''T'' (degC_to_kelvin Ti) ''Q'' 1 refrigerante = Some s1 \<and>
       CP ''P'' ''T'' (degC_to_kelvin Ta + Delta_T_cond) ''Q'' 0 refrigerante = Some Pc \<and>
       CP ''H'' ''P'' Pc ''S'' s1 refrigerante = Some h2 \<and>
       CP ''H'' ''P'' Pc ''Q'' 0 refrigerante = Some h3 \<and>
       CP ''T'' ''P'' Pc ''Q'' 0 refrigerante = Some T3 \<and>
       CP ''P'' ''T'' (degC_to_kelvin Ti) ''Q'' 1 refrigerante = Some P4 \<and>
       CP ''Q'' ''P'' P4 ''H'' h3 refrigerante = Some x4 \<and>
       CP ''T'' ''H'' h2 ''P'' Pc refrigerante = Some Td \<and>
       CP ''S'' ''P'' Pc ''Q'' 0 refrigerante = Some s3 \<and>
       CP ''S'' ''P'' P4 ''H'' h3 refrigerante = Some s4 \<and>
       m * (h2 - h1) \<noteq> 0 \<and>
       scalar r = \<lparr>
             Trabajo_Compresor_kW = W_to_kW (m * (h2 - h1)),
             Calor_Extraido_kW = W_to_kW (m * (h1 - h3)),
             COP = m * (h1 - h3) / (m * (h2 - h1)),
             Calidad_Evap = x4,
             Temp_Descarga_C = Td - 273.15,
             Flujo_Masico_kg_s = m \<rparr> \<and>
       states r 1 = Some \<lparr> e_P = P4, e_T = degC_to_kelvin Ti, e_h = h1,
                    e_s = s1, e_desc = ''Entrada Compresor'' \<rparr> \<and>
       states r 2 = Some \<lparr> e_P = Pc, e_T = Td, e_h = h2,
                    e_s = s1, e_desc = ''Entrada Condensador'' \<rparr> \<and>
       states r 3 = Some \<lparr> e_P = Pc, e_T = T3, e_h = h3,
                    e_s = s3, e_desc = ''Salida Condensador'' \<rparr> \<and>
       states r 4 = Some \<lparr> e_P = P4, e_T = degC_to_kelvin Ti, e_h = h3,
                    e_s = s4, e_desc = ''Entrada Evaporador'' \<rparr>"
proof -
  from assms obtain c where c: "ciclo CP Ta Ti m = Inr c" and e: "empaquetar CP c = Inr r"
    by (auto simp add: simular_Inr_iff)
  from c obtain h1 s1 Pc h2 h3 T3 P4 x4 where
    o: "CP ''H'' ''T'' (degC_to_kelvin Ti) ''Q'' 1 refrigerante = Some h1"
       "CP ''S'' ''T'' (degC_to_kelvin Ti) ''Q'' 1 refrigerante = Some s1"
       "CP ''P'' ''T'' (degC_to_kelvin Ta + Delta_T_cond) ''Q'' 0 refrigerante = Some Pc"
       "CP ''H'' ''P'' Pc ''S'' s1 refrigerante = Some h2"
       "CP ''H'' ''P'' Pc ''Q'' 0 refrigerante = Some h3"
       "CP ''T'' ''P'' Pc ''Q'' 0 refrigerante = Some T3"
       "CP ''P'' ''T'' (degC_to_kelvin Ti) ''Q'' 1 refrigerante = Some P4"
       "CP ''Q'' ''P'' P4 ''H'' h3 refrigerante = Some x4"
    and cv: "c = \<lparr> c_T_ambiente = degC_to_kelvin Ta, c_T_interior = degC_to_kelvin Ti,
             c_Flujo_masico = m, c_h1 = h1, c_s1 = s1,
             c_T_condensacion = degC_to_kelvin Ta + Delta_T_cond, c_P_condensacion = Pc,
             c_s2 = s1, c_P2 = Pc, c_h2 = h2,
             c_Trabajo_necesario = m * (h2 - h1),
             c_P3 = Pc, c_h3 = h3, c_T3 = T3, c_h4 = h3, c_P4 = P4, c_x4 = x4,
             c_Q_evap = m * (h1 - h3) \<rparr>"
    unfolding ciclo_Inr_iff by blast
  from e obtain Td s3 s4 where
    p: "c_Trabajo_necesario c \<noteq> 0"
       "CP ''T'' ''H'' (c_h2 c) ''P'' (c_P2 c) refrigerante = Some Td"
       "CP ''S'' ''P'' (c_P3 c) ''Q'' 0 refrigerante = Some s3"
       "CP ''S'' ''P'' (c_P4 c) ''H'' (c_h4 c) refrigerante = Some s4"
    and rv: "r = \<lparr> scalar = \<lparr>
             Trabajo_Compresor_kW = W_to_kW (c_Trabajo_necesario c),
             Calor_Extraido_kW = W_to_kW (c_Q_evap c),
             COP = c_Q_evap c / c_Trabajo_necesario c,
             Calidad_Evap = c_x4 c,
             Temp_Descarga_C = Td - 273.15,
             Flujo_Masico_kg_s = c_Flujo_masico c \<rparr>,
           states = [
             1 \<mapsto> \<lparr> e_P = c_P4 c, e_T = c_T_interior c, e_h = c_h1 c,
                    e_s = c_s1 c, e_desc = ''Entrada Compresor'' \<rparr>,
             2 \<mapsto> \<lparr> e_P = c_P2 c, e_T = Td, e_h = c_h2 c,
                    e_s = c_s2 c, e_desc = ''Entrada Condensador'' \<rparr>,
             3 \<mapsto> \<lparr> e_P = c_P3 c, e_T = c_T3 c, e_h = c_h3 c,
                    e_s = s3, e_desc = ''Salida Condensador'' \<rparr>,
             4 \<mapsto> \<lparr> e_P = c_P4 c, e_T = c_T_interior c, e_h = c_h4 c,
                    e_s = s4, e_desc = ''Entrada Evaporador'' \<rparr> ] \<rparr>"
    unfolding empaquetar_Inr_iff by blast
  from p have p': "m * (h2 - h1) \<noteq> 0" "CP ''T'' ''H'' h2 ''P'' Pc refrigerante = Some Td"
    "CP ''S'' ''P'' Pc ''Q'' 0 refrigerante = Some s3"
    "CP ''S'' ''P'' P4 ''H'' h3 refrigerante = Some s4"
    by (simp_all add: cv)
  have sc: "scalar r = \<lparr>
             Trabajo_Compresor_kW = W_to_kW (m * (h2 - h1)),
             Calor_Extraido_kW = W_to_kW (m * (h1 - h3)),
             COP = m * (h1 - h3) / (m * (h2 - h1)),
             Calidad_Evap = x4,
             Temp_Descarga_C = Td - 273.15,
             Flujo_Masico_kg_s = m \<rparr>"
    by (simp add: rv cv)
  have st: "states r 1 = Some \<lparr> e_P = P4, e_T = degC_to_kelvin Ti, e_h = h1,
                    e_s = s1, e_desc = ''Entrada Compresor'' \<rparr>"
    "states r 2 = Some \<lparr> e_P = Pc, e_T = Td, e_h = h2,
                    e_s = s1, e_desc = ''Entrada Condensador'' \<rparr>"
    "states r 3 = Some \<lparr> e_P = Pc, e_T = T3, e_h = h3,
                    e_s = s3, e_desc = ''Salida Condensador'' \<rparr>"
    "states r 4 = Some \<lparr> e_P = P4, e_T = degC_to_kelvin Ti, e_h = h3,
                    e_s = s4, e_desc = ''Entrada Evaporador'' \<rparr>"
    by (simp_all add: rv cv)
  from o p' sc st show ?thesis by blast
qed

lemma ciclo_lineal:
  "\<exists>c. ciclo CP_lineal Ta Ti m = Inr c"
  by (simp add: ciclo_def Let_def PropsSI_def CP_lineal_def refrigerante_def)

lemma simular_lineal:
  assumes "m \<noteq> 0" and "Ta + 15 \<noteq> Ti"
  shows "\<exists>r. simular_refrigerador CP_lineal Ta Ti m = Inr r"
  using assms
  by (simp add: simular_refrigerador_def ciclo_def empaquetar_def truediv_def Let_def
      PropsSI_def CP_lineal_def refrigerante_def degC_to_kelvin_def Delta_T_cond_def)

text \<open>Changing only the mass flow changes only the two rates.\<close>

lemma ciclo_otro_flujo:
  assumes "ciclo CP Ta Ti m = Inr c"
  shows "ciclo CP Ta Ti m' =
     Inr (c\<lparr> c_Flujo_masico := m',
             c_Trabajo_necesario := m' * (c_h2 c - c_h1 c),
             c_Q_evap := m' * (c_h1 c - c_h4 c) \<rparr>)
     \<and> c_Trabajo_necesario c = m * (c_h2 c - c_h1 c)
     \<and> c_Q_evap c = m * (c_h1 c - c_h4 c)"
  using assms unfolding ciclo_Inr_iff by auto

lemma simular_otro_flujo:
  assumes r: "simular_refrigerador CP Ta Ti m = Inr r" and m': "m' \<noteq> 0"
  shows "\<exists>r' h1 h2 h4.
     simular_refrigerador CP Ta Ti m' = Inr r' \<and> states r' = states r \<and>
     m \<noteq> 0 \<and> h2 \<noteq> h1 \<and>
     Trabajo_Compresor_kW (scalar r) = W_to_kW (m * (h2 - h1)) \<and>
     Calor_Extraido_kW (scalar r) = W_to_kW (m * (h1 - h4)) \<and>
     COP (scalar r) = (h1 - h4) / (h2 - h1) \<and>
     Trabajo_Compresor_kW (scalar r') = W_to_kW (m' * (h2 - h1)) \<and>
     Calor_Extraido_kW (scalar r') = W_to_kW (m' * (h1 - h4)) \<and>
     COP (scalar r') = (h1 - h4) / (h2 - h1) \<and>
     map_option e_h (states r 1) = Some h1 \<and>
     map_option e_h (states r 2) = Some h2 \<and>
     map_option e_h (states r 4) = Some h4"
proof -
  from r obtain c where c: "ciclo CP Ta Ti m = Inr c" and e: "empaquetar CP c = Inr r"
    by (auto simp add: simular_Inr_iff)
  define c' where "c' = c\<lparr> c_Flujo_masico := m',
             c_Trabajo_necesario := m' * (c_h2 c - c_h1 c),
             c_Q_evap := m' * (c_h1 c - c_h4 c) \<rparr>"
  from ciclo_otro_flujo [OF c, of m'] have c2: "ciclo CP Ta Ti m' = Inr c'"
    and W: "c_Trabajo_necesario c = m * (c_h2 c - c_h1 c)"
    and Q: "c_Q_evap c = m * (c_h1 c - c_h4 c)"
    by (simp_all add: c'_def)
  from e obtain Td s3 s4 where
    p: "c_Trabajo_necesario c \<noteq> 0"
       "CP ''T'' ''H'' (c_h2 c) ''P'' (c_P2 c) refrigerante = Some Td"
       "CP ''S'' ''P'' (c_P3 c) ''Q'' 0 refrigerante = Some s3"
       "CP ''S'' ''P'' (c_P4 c) ''H'' (c_h4 c) refrigerante = Some s4"
    and rv: "r = \<lparr> scalar = \<lparr>
             Trabajo_Compresor_kW = W_to_kW (c_Trabajo_necesario c),
             Calor_Extraido_kW = W_to_kW (c_Q_evap c),
             COP = c_Q_evap c / c_Trabajo_necesario c,
             Calidad_Evap = c_x4 c,
             Temp_Descarga_C = Td - 273.15,
             Flujo_Masico_kg_s = c_Flujo_masico c \<rparr>,
           states = [
             1 \<mapsto> \<lparr> e_P = c_P4 c, e_T = c_T_interior c, e_h = c_h1 c,
                    e_s = c_s1 c, e_desc = ''Entrada Compresor'' \<rparr>,
             2 \<mapsto> \<lparr> e_P = c_P2 c, e_T = Td, e_h = c_h2 c,
                    e_s = c_s2 c, e_desc = ''Entrada Condensador'' \<rparr>,
             3 \<mapsto> \<lparr> e_P = c_P3 c, e_T = c_T3 c, e_h = c_h3 c,
                    e_s = s3, e_desc = ''Salida Condensador'' \<rparr>,
             4 \<mapsto> \<lparr> e_P = c_P4 c, e_T = c_T_interior c, e_h = c_h4 c,
                    e_s = s4, e_desc = ''Entrada Evaporador'' \<rparr> ] \<rparr>"
    unfolding empaquetar_Inr_iff by blast
  from p(1) W have nz: "m \<noteq> 0" "c_h2 c \<noteq> c_h1 c" by auto
  define r' where "r' = \<lparr> scalar = \<lparr>
             Trabajo_Compresor_kW = W_to_kW (c_Trabajo_necesario c'),
             Calor_Extraido_kW = W_to_kW (c_Q_evap c'),
             COP = c_Q_evap c' / c_Trabajo_necesario c',
             Calidad_Evap = c_x4 c',
             Temp_Descarga_C = Td - 273.15,
             Flujo_Masico_kg_s = c_Flujo_masico c' \<rparr>,
           states = [
             1 \<mapsto> \<lparr> e_P = c_P4 c', e_T = c_T_interior c', e_h = c_h1 c',
                    e_s = c_s1 c', e_desc = ''Entrada Compresor'' \<rparr>,
             2 \<mapsto> \<lparr> e_P = c_P2 c', e_T = Td, e_h = c_h2 c',
                    e_s = c_s2 c', e_desc = ''Entrada Condensador'' \<rparr>,
             3 \<mapsto> \<lparr> e_P = c_P3 c', e_T = c_T3 c', e_h = c_h3 c',
                    e_s = s3, e_desc = ''Salida Condensador'' \<rparr>,
             4 \<mapsto> \<lparr> e_P = c_P4 c', e_T = c_T_interior c', e_h = c_h4 c',
                    e_s = s4, e_desc = ''Entrada Evaporador'' \<rparr> ] \<rparr>"
  have "c_Trabajo_necesario c' \<noteq> 0" using nz m' by (simp add: c'_def)
  moreover have "CP ''T'' ''H'' (c_h2 c') ''P'' (c_P2 c') refrigerante = Some Td"
       "CP ''S'' ''P'' (c_P3 c') ''Q'' 0 refrigerante = Some s3"
       "CP ''S'' ''P'' (c_P4 c') ''H'' (c_h4 c') refrigerante = Some s4"
    using p by (simp_all add: c'_def)
  ultimately have e2: "empaquetar CP c' = Inr r'"
    unfolding empaquetar_Inr_iff r'_def by blast
  have s2: "simular_refrigerador CP Ta Ti m' = Inr r'"
    using c2 e2 by (auto simp add: simular_Inr_iff)
  have st: "states r' = states r" by (simp add: r'_def rv c'_def)
  have a: "Trabajo_Compresor_kW (scalar r) = W_to_kW (m * (c_h2 c - c_h1 c))"
    "Calor_Extraido_kW (scalar r) = W_to_kW (m * (c_h1 c - c_h4 c))"
    "COP (scalar r) = (c_h1 c - c_h4 c) / (c_h2 c - c_h1 c)"
    using nz by (simp_all add: rv W Q)
  have b: "Trabajo_Compresor_kW (scalar r') = W_to_kW (m' * (c_h2 c - c_h1 c))"
    "Calor_Extraido_kW (scalar r') = W_to_kW (m' * (c_h1 c - c_h4 c))"
    "COP (scalar r') = (c_h1 c - c_h4 c) / (c_h2 c - c_h1 c)"
    using nz m' by (simp_all add: r'_def c'_def)
  have h: "map_option e_h (states r 1) = Some (c_h1 c)"
    "map_option e_h (states r 2) = Some (c_h2 c)"
    "map_option e_h (states r 4) = Some (c_h4 c)"
    by (simp_all add: rv)
  from s2 st nz a b h show ?thesis by blast
qed

section \<open>The claims\<close>

text \<open>
  Claim C1. Whenever the solve succeeds, the four states it returns satisfy the cycle
  invariants: state 1 and state 4 have the same pressure, state 2 and state 3 have the
  same pressure, state 2 has the entropy of state 1, and state 4 has the enthalpy of
  state 3.
\<close>

theorem cycle_invariants:
  assumes "simular_refrigerador CP Ta Ti m = Inr r"
  shows "\<exists>e1 e2 e3 e4.
     states r 1 = Some e1 \<and> states r 2 = Some e2 \<and>
     states r 3 = Some e3 \<and> states r 4 = Some e4 \<and>
     e_P e1 = e_P e4 \<and> e_P e2 = e_P e3 \<and> e_s e2 = e_s e1 \<and> e_h e4 = e_h e3"
  using simular_Inr_D [OF assms] by force

theorem cycle_invariants_witness:
  "\<exists>r. simular_refrigerador CP_lineal 25 4 (1/10) = Inr r \<and>
     (\<exists>e1 e2 e3 e4.
       states r 1 = Some e1 \<and> states r 2 = Some e2 \<and>
       states r 3 = Some e3 \<and> states r 4 = Some e4 \<and>
       e_P e1 = e_P e4 \<and> e_P e2 = e_P e3 \<and> e_s e2 = e_s e1 \<and> e_h e4 = e_h e3)"
proof -
  obtain r where r: "simular_refrigerador CP_lineal 25 4 (1/10) = Inr r"
    using simular_lineal [of "1/10" 25 4] by auto
  from cycle_invariants [OF r] r show ?thesis by blast
qed

text \<open>
  Claim C2. Whenever the solve succeeds, the coefficient of performance it returns is
  the returned heat-extraction rate divided by the returned compressor work rate, and
  that divisor is not zero.
\<close>

theorem cop_is_ratio:
  assumes "simular_refrigerador CP Ta Ti m = Inr r"
  shows "Trabajo_Compresor_kW (scalar r) \<noteq> 0 \<and>
     COP (scalar r) = Calor_Extraido_kW (scalar r) / Trabajo_Compresor_kW (scalar r)"
  using simular_Inr_D [OF assms] by (auto simp add: W_to_kW_def)

theorem cop_is_ratio_witness:
  "\<exists>r. simular_refrigerador CP_lineal 25 4 (1/10) = Inr r \<and>
     Trabajo_Compresor_kW (scalar r) \<noteq> 0 \<and>
     COP (scalar r) = Calor_Extraido_kW (scalar r) / Trabajo_Compresor_kW (scalar r)"
proof -
  obtain r where r: "simular_refrigerador CP_lineal 25 4 (1/10) = Inr r"
    using simular_lineal [of "1/10" 25 4] by auto
  from cop_is_ratio [OF r] r show ?thesis by blast
qed

text \<open>
  Claim C3. Whenever the solve succeeds, the compressor work rate is the mass flow
  times the enthalpy of state 2 minus that of state 1, and the heat-extraction rate is
  the mass flow times the enthalpy of state 1 minus that of state 4, the enthalpies
  being those of the returned states; both rates are reported in kW, the product in W.
\<close>

theorem rates_from_enthalpies:
  assumes "simular_refrigerador CP Ta Ti m = Inr r"
  shows "\<exists>e1 e2 e4.
     states r 1 = Some e1 \<and> states r 2 = Some e2 \<and> states r 4 = Some e4 \<and>
     Flujo_Masico_kg_s (scalar r) = m \<and>
     Trabajo_Compresor_kW (scalar r) = W_to_kW (m * (e_h e2 - e_h e1)) \<and>
     Calor_Extraido_kW (scalar r) = W_to_kW (m * (e_h e1 - e_h e4))"
  using simular_Inr_D [OF assms] by force

theorem rates_from_enthalpies_witness:
  "\<exists>r. simular_refrigerador CP_lineal 25 4 (1/10) = Inr r \<and>
    (\<exists>e1 e2 e4.
     states r 1 = Some e1 \<and> states r 2 = Some e2 \<and> states r 4 = Some e4 \<and>
     Flujo_Masico_kg_s (scalar r) = 1/10 \<and>
     Trabajo_Compresor_kW (scalar r) = W_to_kW (1/10 * (e_h e2 - e_h e1)) \<and>
     Calor_Extraido_kW (scalar r) = W_to_kW (1/10 * (e_h e1 - e_h e4)))"
proof -
  obtain r where r: "simular_refrigerador CP_lineal 25 4 (1/10) = Inr r"
    using simular_lineal [of "1/10" 25 4] by auto
  from rates_from_enthalpies [OF r] r show ?thesis by blast
qed

text \<open>
  Claim C4. Whenever the solve succeeds, the temperature reported for state 2 is what
  the property library returns for the temperature at the enthalpy of state 2 and the
  condensing pressure, and the discharge temperature metric is that temperature less
  273.15: the provisional value (ambient plus approach delta) written at line 62 is
  overwritten at line 70.
\<close>

theorem discharge_temperature_requeried:
  assumes "simular_refrigerador CP Ta Ti m = Inr r"
  shows "\<exists>e2 P_condensacion.
     states r 2 = Some e2 \<and>
     CP ''P'' ''T'' (degC_to_kelvin Ta + Delta_T_cond) ''Q'' 0 refrigerante
       = Some P_condensacion \<and>
     CP ''T'' ''H'' (e_h e2) ''P'' P_condensacion refrigerante = Some (e_T e2) \<and>
     Temp_Descarga_C (scalar r) = e_T e2 - 273.15"
  using simular_Inr_D [OF assms] by force

theorem discharge_temperature_requeried_witness:
  "\<exists>r. simular_refrigerador CP_lineal 25 4 (1/10) = Inr r \<and>
    (\<exists>e2 P_condensacion.
     states r 2 = Some e2 \<and>
     CP_lineal ''P'' ''T'' (degC_to_kelvin 25 + Delta_T_cond) ''Q'' 0 refrigerante
       = Some P_condensacion \<and>
     CP_lineal ''T'' ''H'' (e_h e2) ''P'' P_condensacion refrigerante = Some (e_T e2) \<and>
     Temp_Descarga_C (scalar r) = e_T e2 - 273.15)"
proof -
  obtain r where r: "simular_refrigerador CP_lineal 25 4 (1/10) = Inr r"
    using simular_lineal [of "1/10" 25 4] by auto
  from discharge_temperature_requeried [OF r] r show ?thesis by blast
qed

text \<open>
  Claim C5. The condensing temperature of a successful solve is the ambient
  temperature in kelvin plus 15, and the condensing pressure, which is the pressure of
  states 2 and 3, is what the property library returns for the pressure at that
  temperature and quality 0.
\<close>

theorem condensing_temperature_and_pressure:
  assumes "simular_refrigerador CP Ta Ti m = Inr r"
  shows "\<exists>c e2 e3.
     ciclo CP Ta Ti m = Inr c \<and>
     c_T_condensacion c = (Ta + 273.15) + 15 \<and>
     CP ''P'' ''T'' (c_T_condensacion c) ''Q'' 0 ''R134a'' = Some (c_P_condensacion c) \<and>
     states r 2 = Some e2 \<and> states r 3 = Some e3 \<and>
     e_P e2 = c_P_condensacion c \<and> e_P e3 = c_P_condensacion c"
proof -
  from assms obtain c where c: "ciclo CP Ta Ti m = Inr c" and e: "empaquetar CP c = Inr r"
    by (auto simp add: simular_Inr_iff)
  from c have "c_T_condensacion c = (Ta + 273.15) + 15"
    and "CP ''P'' ''T'' (c_T_condensacion c) ''Q'' 0 ''R134a'' = Some (c_P_condensacion c)"
    and "c_P2 c = c_P_condensacion c" and "c_P3 c = c_P_condensacion c"
    by (auto simp add: ciclo_Inr_iff degC_to_kelvin_def Delta_T_cond_def refrigerante_def)
  moreover from e have "\<exists>e2 e3. states r 2 = Some e2 \<and> states r 3 = Some e3 \<and>
      e_P e2 = c_P2 c \<and> e_P e3 = c_P3 c"
    by (auto simp add: empaquetar_Inr_iff)
  ultimately show ?thesis using c by auto
qed

theorem condensing_temperature_and_pressure_witness:
  "\<exists>r. simular_refrigerador CP_lineal 25 4 (1/10) = Inr r \<and>
   (\<exists>c e2 e3.
     ciclo CP_lineal 25 4 (1/10) = Inr c \<and>
     c_T_condensacion c = (25 + 273.15) + 15 \<and>
     CP_lineal ''P'' ''T'' (c_T_condensacion c) ''Q'' 0 ''R134a'' = Some (c_P_condensacion c) \<and>
     states r 2 = Some e2 \<and> states r 3 = Some e3 \<and>
     e_P e2 = c_P_condensacion c \<and> e_P e3 = c_P_condensacion c)"
proof -
  obtain r where r: "simular_refrigerador CP_lineal 25 4 (1/10) = Inr r"
    using simular_lineal [of "1/10" 25 4] by auto
  from condensing_temperature_and_pressure [OF r] r show ?thesis by blast
qed

text \<open>
  Claim C6. With both temperatures and the property library fixed, doubling the mass
  flow of a successful solve gives a successful solve whose compressor work rate and
  heat-extraction rate are both doubled, and whose four states, hence the enthalpies
  h1, h2, h3 and h4, are unchanged.
\<close>

theorem rates_linear_in_mass_flow:
  assumes "simular_refrigerador CP Ta Ti m = Inr r"
  shows "\<exists>r'. simular_refrigerador CP Ta Ti (2 * m) = Inr r' \<and>
     Trabajo_Compresor_kW (scalar r') = 2 * Trabajo_Compresor_kW (scalar r) \<and>
     Calor_Extraido_kW (scalar r') = 2 * Calor_Extraido_kW (scalar r) \<and>
     states r' = states r"
proof -
  have "m \<noteq> 0" using simular_otro_flujo [OF assms, of 1] by auto
  then have "2 * m \<noteq> 0" by simp
  from simular_otro_flujo [OF assms this] show ?thesis
    by (auto simp add: W_to_kW_def)
qed

theorem rates_linear_in_mass_flow_witness:
  "\<exists>r r'. simular_refrigerador CP_lineal 25 4 (1/10) = Inr r \<and>
     simular_refrigerador CP_lineal 25 4 (2 * (1/10)) = Inr r' \<and>
     Trabajo_Compresor_kW (scalar r') = 2 * Trabajo_Compresor_kW (scalar r) \<and>
     Calor_Extraido_kW (scalar r') = 2 * Calor_Extraido_kW (scalar r) \<and>
     states r' = states r"
proof -
  obtain r where r: "simular_refrigerador CP_lineal 25 4 (1/10) = Inr r"
    using simular_lineal [of "1/10" 25 4] by auto
  from rates_linear_in_mass_flow [OF r] r show ?thesis by blast
qed

text \<open>
  Claim C7. With a mass flow of 0 and temperatures on which the eight lookups of lines
  21 to 41 succeed, the compressor work and the heat extracted are both 0, and the
  solve raises \<open>ZeroDivisionError\<close> at the division of line 47: it returns no result,
  so no coefficient of performance of zero.
\<close>

theorem zero_mass_flow_raises:
  assumes "ciclo CP Ta Ti 0 = Inr c"
  shows "c_Trabajo_necesario c = 0 \<and> c_Q_evap c = 0 \<and>
     simular_refrigerador CP Ta Ti 0 = Inl ZeroDivisionError"
proof -
  from assms have z: "c_Trabajo_necesario c = 0" "c_Q_evap c = 0"
    by (auto simp add: ciclo_Inr_iff)
  then have "empaquetar CP c = Inl ZeroDivisionError"
    by (simp add: empaquetar_def truediv_def)
  with assms z show ?thesis by (simp add: simular_refrigerador_def)
qed

theorem zero_mass_flow_raises_witness:
  "\<exists>c. ciclo CP_lineal 25 4 0 = Inr c \<and>
     c_Trabajo_necesario c = 0 \<and> c_Q_evap c = 0 \<and>
     simular_refrigerador CP_lineal 25 4 0 = Inl ZeroDivisionError"
proof -
  obtain c where c: "ciclo CP_lineal 25 4 0 = Inr c"
    using ciclo_lineal [of 25 4 0] by auto
  from zero_mass_flow_raises [OF c] c show ?thesis by blast
qed

text \<open>
  Claim C8. The solver has no special case for a degenerate cycle: when every lookup
  succeeds and the compressor work is not zero, negative included, the solve returns
  a result whose coefficient of performance is the computed quotient, whatever its
  sign. The evaluation below has the interior at 50 degrees, above the condensing
  temperature of 40 degrees, and returns a coefficient of - 111.
\<close>

theorem degenerate_cycle_returns_cop:
  assumes "ciclo CP Ta Ti m = Inr c"
    and "c_Trabajo_necesario c \<noteq> 0"
    and "CP ''T'' ''H'' (c_h2 c) ''P'' (c_P2 c) refrigerante = Some Td"
    and "CP ''S'' ''P'' (c_P3 c) ''Q'' 0 refrigerante = Some s3"
    and "CP ''S'' ''P'' (c_P4 c) ''H'' (c_h4 c) refrigerante = Some s4"
  shows "\<exists>r. simular_refrigerador CP Ta Ti m = Inr r \<and>
     COP (scalar r) = c_Q_evap c / c_Trabajo_necesario c"
proof -
  from assms(2-5) obtain r where "empaquetar CP c = Inr r"
    and "COP (scalar r) = c_Q_evap c / c_Trabajo_necesario c"
    unfolding empaquetar_Inr_iff by fastforce
  with assms(1) show ?thesis by (auto simp add: simular_Inr_iff)
qed

theorem degenerate_cycle_returns_cop_witness:
  "\<exists>c r. ciclo CP_lineal 25 50 (1/10) = Inr c \<and>
     c_Trabajo_necesario c = - 1 \<and> c_Q_evap c = 111 \<and>
     simular_refrigerador CP_lineal 25 50 (1/10) = Inr r \<and>
     COP (scalar r) = - 111"
proof -
  obtain c where c: "ciclo CP_lineal 25 50 (1/10) = Inr c"
    using ciclo_lineal [of 25 50 "1/10"] by auto
  then have v: "c_Trabajo_necesario c = - 1" "c_Q_evap c = 111"
    "c_h2 c = 1313.15" "c_P2 c = 626.3" "c_P3 c = 626.3" "c_P4 c = 646.3" "c_h4 c = 213.15"
    by (auto simp add: ciclo_def Let_def PropsSI_def CP_lineal_def refrigerante_def
        degC_to_kelvin_def Delta_T_cond_def)
  have w: "c_Trabajo_necesario c \<noteq> 0" using v by simp
  have t: "CP_lineal ''T'' ''H'' (c_h2 c) ''P'' (c_P2 c) refrigerante = Some 333.15"
    and s3: "CP_lineal ''S'' ''P'' (c_P3 c) ''Q'' 0 refrigerante = Some 626.3"
    and s4: "CP_lineal ''S'' ''P'' (c_P4 c) ''H'' (c_h4 c) refrigerante = Some 859.45"
    by (simp_all add: v CP_lineal_def refrigerante_def)
  from degenerate_cycle_returns_cop [OF c w t s3 s4] c v show ?thesis by auto
qed

text \<open>
  Claim C9. Whenever the solve succeeds, the temperature reported for state 4 is the
  one reported for state 1, and both are the interior temperature in kelvin. This
  holds for every property library, so the value does not come from a lookup: in
  particular not from one at the evaporating pressure and the enthalpy of state 4.
\<close>

theorem evaporator_temperatures:
  assumes "simular_refrigerador CP Ta Ti m = Inr r"
  shows "\<exists>e1 e4. states r 1 = Some e1 \<and> states r 4 = Some e4 \<and>
     e_T e4 = e_T e1 \<and> e_T e1 = Ti + 273.15"
  using simular_Inr_D [OF assms] by (force simp add: degC_to_kelvin_def)

theorem evaporator_temperatures_witness:
  "\<exists>r. simular_refrigerador CP_lineal 25 4 (1/10) = Inr r \<and>
    (\<exists>e1 e4. states r 1 = Some e1 \<and> states r 4 = Some e4 \<and>
     e_T e4 = e_T e1 \<and> e_T e1 = 4 + 273.15)"
proof -
  obtain r where r: "simular_refrigerador CP_lineal 25 4 (1/10) = Inr r"
    using simular_lineal [of "1/10" 25 4] by auto
  from evaporator_temperatures [OF r] r show ?thesis by blast
qed

text \<open>
  Claim C10. A successful solve has a mass flow other than 0 and returns the
  coefficient of performance (h1 - h4) / (h2 - h1), the enthalpies being those of the
  returned states; with the temperatures and the property library fixed, every other
  mass flow that is not 0 gives a successful solve with the same coefficient.
\<close>

theorem cop_independent_of_mass_flow:
  assumes "simular_refrigerador CP Ta Ti m = Inr r" and "m' \<noteq> 0"
  shows "\<exists>r' e1 e2 e4.
     states r 1 = Some e1 \<and> states r 2 = Some e2 \<and> states r 4 = Some e4 \<and>
     m \<noteq> 0 \<and> e_h e2 \<noteq> e_h e1 \<and>
     COP (scalar r) = (e_h e1 - e_h e4) / (e_h e2 - e_h e1) \<and>
     simular_refrigerador CP Ta Ti m' = Inr r' \<and>
     COP (scalar r') = COP (scalar r)"
  using simular_otro_flujo [OF assms] by (auto simp add: map_option_case split: option.splits)

theorem cop_independent_of_mass_flow_witness:
  "\<exists>r r' e1 e2 e4.
     simular_refrigerador CP_lineal 25 4 (1/10) = Inr r \<and> (1/2 :: real) \<noteq> 0 \<and>
     states r 1 = Some e1 \<and> states r 2 = Some e2 \<and> states r 4 = Some e4 \<and>
     e_h e2 \<noteq> e_h e1 \<and>
     COP (scalar r) = (e_h e1 - e_h e4) / (e_h e2 - e_h e1) \<and>
     simular_refrigerador CP_lineal 25 4 (1/2) = Inr r' \<and>
     COP (scalar r') = COP (scalar r)"
proof -
  obtain r where r: "simular_refrigerador CP_lineal 25 4 (1/10) = Inr r"
    using simular_lineal [of "1/10" 25 4] by auto
  have h: "(1/2 :: real) \<noteq> 0" by simp
  from cop_independent_of_mass_flow [OF r h] r h show ?thesis by blast
qed

end
